theory Spec2Isabelle
  imports Complex_Main "HOL-Library.Sublist" "HOL-Library.Multiset"
begin

section \<open>JavaScript values used by the matching algorithm\<close>

text \<open>
  A JavaScript number is modelled as an exact rational or one of the three non-finite
  values. Rounding of binary floating point is not modelled, and zero carries no sign (a
  zero decoded from a response or typed into a form is \<open>+0\<close>). The arithmetic below
  follows the ECMAScript rules under that reading: division by zero yields an infinity
  or \<open>NaN\<close>, never an exception.
\<close>

datatype jsnum = Num rat | PosInf | NegInf | NaN

fun js_neg :: "jsnum \<Rightarrow> jsnum" where
  "js_neg (Num a) = Num (- a)"
| "js_neg PosInf = NegInf"
| "js_neg NegInf = PosInf"
| "js_neg NaN = NaN"

fun js_add :: "jsnum \<Rightarrow> jsnum \<Rightarrow> jsnum" where
  "js_add (Num a) (Num b) = Num (a + b)"
| "js_add NaN _ = NaN"
| "js_add _ NaN = NaN"
| "js_add PosInf NegInf = NaN"
| "js_add NegInf PosInf = NaN"
| "js_add PosInf _ = PosInf"
| "js_add NegInf _ = NegInf"
| "js_add (Num a) PosInf = PosInf"
| "js_add (Num a) NegInf = NegInf"

definition js_sub :: "jsnum \<Rightarrow> jsnum \<Rightarrow> jsnum" where
  "js_sub a b = js_add a (js_neg b)"

text \<open>The sign of a finite number, as an infinity: used by multiplication and division.\<close>

definition js_signed_inf :: "rat \<Rightarrow> jsnum" where
  "js_signed_inf a = (if a = 0 then NaN else if 0 < a then PosInf else NegInf)"

fun js_mul :: "jsnum \<Rightarrow> jsnum \<Rightarrow> jsnum" where
  "js_mul (Num a) (Num b) = Num (a * b)"
| "js_mul NaN _ = NaN"
| "js_mul _ NaN = NaN"
| "js_mul (Num a) PosInf = js_signed_inf a"
| "js_mul (Num a) NegInf = js_neg (js_signed_inf a)"
| "js_mul PosInf (Num b) = js_signed_inf b"
| "js_mul NegInf (Num b) = js_neg (js_signed_inf b)"
| "js_mul PosInf PosInf = PosInf"
| "js_mul NegInf NegInf = PosInf"
| "js_mul PosInf NegInf = NegInf"
| "js_mul NegInf PosInf = NegInf"

fun js_div :: "jsnum \<Rightarrow> jsnum \<Rightarrow> jsnum" where
  "js_div (Num a) (Num b) = (if b = 0 then js_signed_inf a else Num (a / b))"
| "js_div NaN _ = NaN"
| "js_div _ NaN = NaN"
| "js_div (Num a) PosInf = Num 0"
| "js_div (Num a) NegInf = Num 0"
| "js_div PosInf (Num b) = (if 0 \<le> b then PosInf else NegInf)"
| "js_div NegInf (Num b) = (if 0 \<le> b then NegInf else PosInf)"
| "js_div PosInf _ = NaN"
| "js_div NegInf _ = NaN"

text \<open>\<open>Math.max\<close> and \<open>Math.min\<close> of two arguments: \<open>NaN\<close> if either is \<open>NaN\<close>.\<close>

fun js_max :: "jsnum \<Rightarrow> jsnum \<Rightarrow> jsnum" where
  "js_max (Num a) (Num b) = Num (max a b)"
| "js_max NaN _ = NaN"
| "js_max _ NaN = NaN"
| "js_max PosInf _ = PosInf"
| "js_max _ PosInf = PosInf"
| "js_max NegInf b = b"
| "js_max a NegInf = a"

fun js_min :: "jsnum \<Rightarrow> jsnum \<Rightarrow> jsnum" where
  "js_min (Num a) (Num b) = Num (min a b)"
| "js_min NaN _ = NaN"
| "js_min _ NaN = NaN"
| "js_min NegInf _ = NegInf"
| "js_min _ NegInf = NegInf"
| "js_min PosInf b = b"
| "js_min a PosInf = a"

text \<open>\<open>x > 0\<close> on a number; every comparison with \<open>NaN\<close> is false.\<close>

fun js_gt0 :: "jsnum \<Rightarrow> bool" where
  "js_gt0 (Num a) = (0 < a)"
| "js_gt0 PosInf = True"
| "js_gt0 NegInf = False"
| "js_gt0 NaN = False"

text \<open>\<open>x || 0\<close> on a number: \<open>NaN\<close> and zero are falsy.\<close>

fun js_or0 :: "jsnum \<Rightarrow> jsnum" where
  "js_or0 NaN = Num 0"
| "js_or0 x = x"

subsection \<open>Strings\<close>

text \<open>
  Strings are lists of 8-bit characters, so \<open>toLowerCase\<close> and the white space of
  \<open>trim\<close> and \<open>parseInt\<close> cover ASCII only.
\<close>

definition lower_char :: "char \<Rightarrow> char" where
  "lower_char c =
     (let n = (of_char c :: nat) in if 65 \<le> n \<and> n \<le> 90 then char_of (n + 32) else c)"

definition toLowerCase :: "string \<Rightarrow> string" where
  "toLowerCase s = map lower_char s"

definition is_space :: "char \<Rightarrow> bool" where
  "is_space c = ((of_char c :: nat) \<in> {9, 10, 11, 12, 13, 32})"

definition trimStart :: "string \<Rightarrow> string" where
  "trimStart s = dropWhile is_space s"

definition trim :: "string \<Rightarrow> string" where
  "trim s = rev (dropWhile is_space (rev (dropWhile is_space s)))"

text \<open>\<open>s.includes(sub)\<close>: \<open>sub\<close> occurs in \<open>s\<close> as a contiguous run of characters.\<close>

fun includes_str :: "string \<Rightarrow> string \<Rightarrow> bool" where
  "includes_str [] sub = (sub = [])"
| "includes_str (c # cs) sub = (prefix sub (c # cs) \<or> includes_str cs sub)"

subsection \<open>\<open>parseInt\<close> without a radix\<close>

definition digit_value :: "char \<Rightarrow> nat option" where
  "digit_value c =
     (let n = (of_char c :: nat) in
      if 48 \<le> n \<and> n \<le> 57 then Some (n - 48)
      else if 97 \<le> n \<and> n \<le> 102 then Some (n - 87)
      else if 65 \<le> n \<and> n \<le> 70 then Some (n - 55)
      else None)"

definition is_digit :: "nat \<Rightarrow> char \<Rightarrow> bool" where
  "is_digit radix c = (case digit_value c of None \<Rightarrow> False | Some d \<Rightarrow> d < radix)"

definition digits_value :: "nat \<Rightarrow> string \<Rightarrow> nat" where
  "digits_value radix ds =
     foldl (\<lambda>acc c. acc * radix + (case digit_value c of None \<Rightarrow> 0 | Some d \<Rightarrow> d)) 0 ds"

text \<open>
  The digits are the longest prefix of digits of the radix; with none the result is
  \<open>NaN\<close>, here \<open>None\<close>. A leading \<open>0x\<close> or \<open>0X\<close> selects radix 16.
\<close>

definition parse_digits :: "string \<Rightarrow> nat option" where
  "parse_digits s =
     (let hex = (prefix ''0x'' s \<or> prefix ''0X'' s);
          radix = (if hex then 16 else 10);
          body = (if hex then drop 2 s else s);
          z = takeWhile (is_digit radix) body
      in if z = [] then None else Some (digits_value radix z))"

definition parseInt :: "string \<Rightarrow> int option" where
  "parseInt str =
     (let s = trimStart str in
      case s of
        [] \<Rightarrow> None
      | c # rest \<Rightarrow>
          if c = CHR ''-'' then map_option (\<lambda>n. - int n) (parse_digits rest)
          else if c = CHR ''+'' then map_option int (parse_digits rest)
          else map_option int (parse_digits s))"

text \<open>
  \<open>parseInt(field) || dflt\<close>: a missing field is \<open>undefined\<close>, which \<open>parseInt\<close> reads as
  the text \<open>undefined\<close> and so as \<open>NaN\<close>; \<open>NaN\<close> and zero are both falsy.
\<close>

definition parseIntOr :: "string option \<Rightarrow> int \<Rightarrow> int" where
  "parseIntOr field dflt =
     (case field of
        None \<Rightarrow> dflt
      | Some str \<Rightarrow>
          (case parseInt str of None \<Rightarrow> dflt | Some v \<Rightarrow> if v = 0 then dflt else v))"

section \<open>Data model\<close>

text \<open>
  Modelled from the spec: the declaration of \<open>UserProfile\<close> (\<open>types/UserProfile\<close>) is
  not among the sources. The fields are the ones the matching functions and the
  orchestrator read: conditions, gender, age, home location, maximum travel distance,
  allergies and an optional minimum preferred compensation.
\<close>

record UserProfile =
  medicalConditions :: "string list"
  gender :: string
  age :: rat
  location :: string
  maxTravelDistance :: rat
  allergies :: "string list"
  preferredCompensation :: "rat option"

text \<open>
  Trials arrive as decoded search results, so a record can be partially populated: every
  field the functions read can be missing (\<open>None\<close> is \<open>undefined\<close>). A field that is
  present has the type the interface \<open>Trial\<close> declares. The fields \<open>locations\<close>,
  \<open>currency\<close> and \<open>details\<close> are read by no function here and are left out.
\<close>

record AgeRange =
  age_min :: "string option"
  age_max :: "string option"

record Compensation =
  has_compensation :: bool
  amount :: "rat option"

record Substance =
  substance_type :: string
  name :: "string option"

record Trial =
  trial_id :: string
  title :: string
  conditions :: "string list option"
  trial_gender :: "string option"
  age_range :: "AgeRange option"
  summary :: string
  compensation :: "Compensation option"
  eligibilityCriteria :: "string option"
  substancesUsed :: "Substance list option"
  distance :: "rat option"
  matchScore :: "jsnum option"

datatype js_error = TypeError

section \<open>Allergy filter\<close>

text \<open>The inner loops of the filter callback: a substance name that contains an allergen.\<close>

definition substanceHasAllergen :: "string list \<Rightarrow> Substance \<Rightarrow> bool" where
  "substanceHasAllergen normalizedAllergies substance =
     (case name substance of
        None \<Rightarrow> False
      | Some n \<Rightarrow>
          if n = [] then False
          else list_ex (\<lambda>allergy. includes_str (toLowerCase n) allergy) normalizedAllergies)"

definition criteriaMentionAllergen :: "string list \<Rightarrow> string \<Rightarrow> bool" where
  "criteriaMentionAllergen normalizedAllergies criteria =
     (let lowerCriteria = toLowerCase criteria in
      list_ex (\<lambda>allergy.
          includes_str lowerCriteria (''allergy to '' @ allergy) \<or>
          includes_str lowerCriteria (''allergic to '' @ allergy)) normalizedAllergies)"

text \<open>The callback of \<open>trials.filter\<close>: \<open>True\<close> keeps the trial.\<close>

definition keepTrial :: "string list \<Rightarrow> Trial \<Rightarrow> bool" where
  "keepTrial normalizedAllergies trial =
     (if (case substancesUsed trial of
            None \<Rightarrow> False
          | Some substances \<Rightarrow> list_ex (substanceHasAllergen normalizedAllergies) substances)
      then False
      else if (case eligibilityCriteria trial of
                 None \<Rightarrow> False
               | Some criteria \<Rightarrow>
                   if criteria = [] then False
                   else criteriaMentionAllergen normalizedAllergies criteria)
      then False
      else True)"

definition filterTrialsByAllergies :: "Trial list \<Rightarrow> string list \<Rightarrow> Trial list" where
  "filterTrialsByAllergies trials allergies' =
     (if allergies' = [] then trials
      else
        let normalizedAllergies = map (\<lambda>a. trim (toLowerCase a)) allergies'
        in filter (keepTrial normalizedAllergies) trials)"

section \<open>Match score\<close>

text \<open>
  \<open>calculateMatchScore\<close> keeps two running totals, \<open>score\<close> and \<open>maxScore\<close>. Each
  block of the function is a definition here; \<open>scoreParts\<close> runs them in the source's
  order and returns both totals, and \<open>calculateMatchScore\<close> divides them.
\<close>

definition conditionMatch :: "UserProfile \<Rightarrow> Trial \<Rightarrow> bool" where
  "conditionMatch profile trial =
     (case conditions trial of
        None \<Rightarrow> False
      | Some cs \<Rightarrow>
          list_ex (\<lambda>condition.
              list_ex (\<lambda>userCondition.
                  includes_str (toLowerCase userCondition) (toLowerCase condition) \<or>
                  includes_str (toLowerCase condition) (toLowerCase userCondition))
                (medicalConditions profile)) cs)"

text \<open>An empty gender string is falsy, as a missing one is.\<close>

definition genderMatch :: "UserProfile \<Rightarrow> Trial \<Rightarrow> bool" where
  "genderMatch profile trial =
     (case trial_gender trial of
        None \<Rightarrow> False
      | Some g \<Rightarrow>
          if g = [] then False
          else
            let normalizedGender = toLowerCase g in
            normalizedGender = ''all'' \<or>
            includes_str normalizedGender ''both'' \<or>
            includes_str normalizedGender (toLowerCase (gender profile)))"

definition ageMatch :: "UserProfile \<Rightarrow> AgeRange \<Rightarrow> bool" where
  "ageMatch profile ageRange =
     (let minAge = parseIntOr (age_min ageRange) 0;
          maxAge = parseIntOr (age_max ageRange) 999
      in of_int minAge \<le> age profile \<and> age profile \<le> of_int maxAge)"

text \<open>
  What each block adds to \<open>score\<close>: the weight when its test holds, nothing (zero)
  otherwise.
\<close>

definition conditionPoints :: "UserProfile \<Rightarrow> Trial \<Rightarrow> jsnum" where
  "conditionPoints profile trial = (if conditionMatch profile trial then Num 50 else Num 0)"

definition genderPoints :: "UserProfile \<Rightarrow> Trial \<Rightarrow> jsnum" where
  "genderPoints profile trial = (if genderMatch profile trial then Num 15 else Num 0)"

definition agePoints :: "UserProfile \<Rightarrow> AgeRange \<Rightarrow> jsnum" where
  "agePoints profile ageRange = (if ageMatch profile ageRange then Num 15 else Num 0)"

text \<open>The location block: nothing is added without a distance or beyond the maximum.\<close>

definition proximityPoints :: "UserProfile \<Rightarrow> Trial \<Rightarrow> jsnum" where
  "proximityPoints profile trial =
     (case distance trial of
        None \<Rightarrow> Num 0
      | Some d \<Rightarrow>
          if d \<le> maxTravelDistance profile then
            let distanceScore =
                  js_mul (Num 20)
                    (js_sub (Num 1) (js_div (Num d) (Num (maxTravelDistance profile))))
            in js_max (Num 5) distanceScore
          else Num 0)"

text \<open>The compensation block runs only for a positive preferred compensation.\<close>

definition compensationApplies :: "UserProfile \<Rightarrow> bool" where
  "compensationApplies profile =
     (case preferredCompensation profile of None \<Rightarrow> False | Some pc \<Rightarrow> 0 < pc)"

definition compensationPoints :: "UserProfile \<Rightarrow> Trial \<Rightarrow> jsnum" where
  "compensationPoints profile trial =
     (case preferredCompensation profile of
        None \<Rightarrow> Num 0
      | Some pc \<Rightarrow>
          if 0 < pc then
            (case compensation trial of
               None \<Rightarrow> Num 0
             | Some c \<Rightarrow>
                 if has_compensation c then
                   (case amount c of
                      None \<Rightarrow> Num 0
                    | Some a \<Rightarrow>
                        if a = 0 then Num 0
                        else if pc \<le> a then Num 10
                        else
                          let compensationScore = js_mul (Num 10) (js_div (Num a) (Num pc))
                          in js_min (Num 9) compensationScore)
                 else Num 0)
          else Num 0)"

text \<open>
  Reading \<open>trial.age_range.min\<close> on a trial without \<open>age_range\<close> throws a
  \<open>TypeError\<close>; the blocks before it have no effect of their own.
\<close>

definition scoreParts :: "UserProfile \<Rightarrow> Trial \<Rightarrow> js_error + (jsnum \<times> rat)" where
  "scoreParts profile trial =
     (let score = Num 0;
          maxScore = 0;
          score = js_add score (conditionPoints profile trial);
          maxScore = maxScore + 50;
          score = js_add score (genderPoints profile trial);
          maxScore = maxScore + 15
      in case age_range trial of
           None \<Rightarrow> Inl TypeError
         | Some ageRange \<Rightarrow>
             let score = js_add score (agePoints profile ageRange);
                 maxScore = maxScore + 15;
                 score = js_add score (proximityPoints profile trial);
                 maxScore = maxScore + 20;
                 score = js_add score (compensationPoints profile trial);
                 maxScore = (if compensationApplies profile then maxScore + 10 else maxScore)
             in Inr (score, maxScore))"

definition calculateMatchScore :: "UserProfile \<Rightarrow> Trial \<Rightarrow> js_error + jsnum" where
  "calculateMatchScore profile trial =
     (case scoreParts profile trial of
        Inl e \<Rightarrow> Inl e
      | Inr (score, maxScore) \<Rightarrow>
          Inr (if 0 < maxScore then js_div score (Num maxScore) else Num 0))"

section \<open>Ranking\<close>

text \<open>
  \<open>Array.prototype.sort\<close> is a stable sort by the comparator: \<open>a\<close> goes after \<open>b\<close> when
  \<open>compareFn a b > 0\<close>, and a comparator result of \<open>NaN\<close> counts as zero. It is modelled
  as an insertion sort that puts an element before the first one it does not go after.
\<close>

fun sort_insert :: "('a \<Rightarrow> 'a \<Rightarrow> jsnum) \<Rightarrow> 'a \<Rightarrow> 'a list \<Rightarrow> 'a list" where
  "sort_insert compareFn x [] = [x]"
| "sort_insert compareFn x (y # ys) =
     (if js_gt0 (compareFn x y) then y # sort_insert compareFn x ys else x # y # ys)"

definition js_sort :: "('a \<Rightarrow> 'a \<Rightarrow> jsnum) \<Rightarrow> 'a list \<Rightarrow> 'a list" where
  "js_sort compareFn xs = foldr (sort_insert compareFn) xs []"

text \<open>\<open>t.matchScore || 0\<close>: a missing score, \<open>NaN\<close> and zero all read as zero.\<close>

definition scoreOrZero :: "Trial \<Rightarrow> jsnum" where
  "scoreOrZero t = (case matchScore t of None \<Rightarrow> Num 0 | Some s \<Rightarrow> js_or0 s)"

definition compareByMatchScore :: "Trial \<Rightarrow> Trial \<Rightarrow> jsnum" where
  "compareByMatchScore a b = js_sub (scoreOrZero b) (scoreOrZero a)"

text \<open>The callback of \<open>filteredTrials.map\<close>: a copy of the trial with its score.\<close>

definition withMatchScore :: "UserProfile \<Rightarrow> Trial \<Rightarrow> js_error + Trial" where
  "withMatchScore profile trial =
     (case calculateMatchScore profile trial of
        Inl e \<Rightarrow> Inl e
      | Inr s \<Rightarrow> Inr (trial\<lparr>matchScore := Some s\<rparr>))"

text \<open>\<open>Array.prototype.map\<close> with a callback that can throw: the first throw ends it.\<close>

fun map_throwing :: "('a \<Rightarrow> js_error + 'b) \<Rightarrow> 'a list \<Rightarrow> js_error + 'b list" where
  "map_throwing f [] = Inr []"
| "map_throwing f (x # xs) =
     (case f x of
        Inl e \<Rightarrow> Inl e
      | Inr y \<Rightarrow> (case map_throwing f xs of Inl e \<Rightarrow> Inl e | Inr ys \<Rightarrow> Inr (y # ys)))"

definition rankTrialsByMatchScore :: "Trial list \<Rightarrow> UserProfile \<Rightarrow> js_error + Trial list" where
  "rankTrialsByMatchScore trials profile =
     (let filteredTrials = filterTrialsByAllergies trials (allergies profile) in
      case map_throwing (withMatchScore profile) filteredTrials of
        Inl e \<Rightarrow> Inl e
      | Inr scoredTrials \<Rightarrow> Inr (js_sort compareByMatchScore scoredTrials))"

text \<open>The order the comparator sorts by: \<open>js_ge a b\<close> is \<open>a \<ge> b\<close> on numbers that are not \<open>NaN\<close>.\<close>

fun js_ge :: "jsnum \<Rightarrow> jsnum \<Rightarrow> bool" where
  "js_ge (Num a) (Num b) = (b \<le> a)"
| "js_ge NaN _ = False"
| "js_ge _ NaN = False"
| "js_ge PosInf _ = True"
| "js_ge _ NegInf = True"
| "js_ge (Num a) PosInf = False"
| "js_ge NegInf (Num b) = False"
| "js_ge NegInf PosInf = False"

abbreviation score_ge :: "Trial \<Rightarrow> Trial \<Rightarrow> bool" where
  "score_ge a b \<equiv> js_ge (scoreOrZero a) (scoreOrZero b)"

section \<open>Search orchestrator\<close>

text \<open>
  The source file holds two versions of the component \<open>TrialMatching\<close>; the model
  follows the second one, which guards its search with refs (the \<open>catch\<close> block is the
  same in both). It keeps six state variables and three refs. The key of a
  profile is the JSON text of its conditions, location, allergies and maximum distance;
  two such texts are equal exactly when the four values are, so the key is modelled as
  the tuple.
\<close>

type_synonym ProfileKey = "string list \<times> string \<times> string list \<times> rat"

definition profileKey :: "UserProfile \<Rightarrow> ProfileKey" where
  "profileKey userProfile =
     (medicalConditions userProfile, location userProfile, allergies userProfile,
      maxTravelDistance userProfile)"

record TrialMatchingState =
  trials :: "Trial list"
  currentIndex :: nat
  loading :: bool
  error :: "string option"
  matchedTrials :: "Trial list"
  rejectedTrials :: "Trial list"
  isMounted :: bool
  isFetching :: bool
  searchedProfile :: "ProfileKey option"

text \<open>A call of \<open>searchTrials\<close>: condition, city, distance and result cap.\<close>

datatype SearchCall = SearchCall string string rat nat

text \<open>
  What the awaited call settles to: the response data (\<open>None\<close> when it is not an array)
  or a rejection, which is what a network or decoding failure is.
\<close>

datatype SearchResult = Resolved "Trial list option" | Rejected

text \<open>
  \<open>loadTrials\<close> up to its \<open>await\<close>: the new state and the network call issued, if any.
\<close>

definition loadTrials_start ::
  "UserProfile \<Rightarrow> TrialMatchingState \<Rightarrow> TrialMatchingState \<times> SearchCall option" where
  "loadTrials_start userProfile s =
     (if isFetching s \<or> \<not> isMounted s then (s, None)
      else
        let key = profileKey userProfile in
        if searchedProfile s = Some key then (s, None)
        else
          (case medicalConditions userProfile of
             [] \<Rightarrow>
               (s\<lparr>error :=
                    Some ''Your profile is missing medical conditions. Please update your profile.'',
                  loading := False\<rparr>, None)
           | condition # _ \<Rightarrow>
               if location userProfile = [] then
                 (s\<lparr>error :=
                      Some ''Your profile is missing location information. Please update your profile.'',
                    loading := False\<rparr>, None)
               else
                 let city = trim (takeWhile (\<lambda>c. c \<noteq> CHR '','') (location userProfile))
                 in (s\<lparr>isFetching := True, loading := True, error := None\<rparr>,
                     Some (SearchCall condition city (maxTravelDistance userProfile) 30))))"

text \<open>The \<open>catch\<close> block, which also catches what the ranking throws.\<close>

definition loadTrials_catch :: "TrialMatchingState \<Rightarrow> TrialMatchingState" where
  "loadTrials_catch s =
     (if isMounted s then
        s\<lparr>error := Some ''Failed to load clinical trials. Please try again later.'',
          trials := []\<rparr>
      else s)"

text \<open>\<open>loadTrials\<close> from the point where the awaited call settles, \<open>finally\<close> included.\<close>

definition loadTrials_finish ::
  "UserProfile \<Rightarrow> SearchResult \<Rightarrow> TrialMatchingState \<Rightarrow> TrialMatchingState" where
  "loadTrials_finish userProfile result s =
     (let s' =
        (case result of
           Rejected \<Rightarrow> loadTrials_catch s
         | Resolved trialsData \<Rightarrow>
             if \<not> isMounted s then s
             else
               (case trialsData of
                  Some (t # ts) \<Rightarrow>
                    (case rankTrialsByMatchScore (t # ts) userProfile of
                       Inl e \<Rightarrow> loadTrials_catch s
                     | Inr rankedTrials \<Rightarrow>
                         s\<lparr>trials := rankedTrials, currentIndex := 0, matchedTrials := [],
                           rejectedTrials := [],
                           searchedProfile := Some (profileKey userProfile)\<rparr>)
                | _ \<Rightarrow>
                    s\<lparr>error := Some ''No clinical trials found matching your criteria.'',
                      trials := []\<rparr>))
      in s'\<lparr>isFetching := False, loading := False\<rparr>)"

text \<open>
  The network calls issued by a sequence of search triggers, one per profile, when no
  response arrives between them.
\<close>

fun triggers :: "UserProfile list \<Rightarrow> TrialMatchingState \<Rightarrow> SearchCall list" where
  "triggers [] s = []"
| "triggers (userProfile # rest) s =
     (case loadTrials_start userProfile s of
        (s', None) \<Rightarrow> triggers rest s'
      | (s', Some call) \<Rightarrow> call # triggers rest s')"

section \<open>Example inputs\<close>

definition exampleProfile :: UserProfile where
  "exampleProfile =
     \<lparr>medicalConditions = [''Asthma''], gender = ''male'', age = 30,
      location = ''Boston, MA'', maxTravelDistance = 50, allergies = [],
      preferredCompensation = None\<rparr>"

definition exampleTrial :: Trial where
  "exampleTrial =
     \<lparr>trial_id = ''NCT001'', title = ''Asthma inhaler study'',
      conditions = Some [''asthma''], trial_gender = Some ''Female'',
      age_range = Some \<lparr>age_min = Some ''18 Years'', age_max = Some ''N/A''\<rparr>,
      summary = [], compensation = None, eligibilityCriteria = None,
      substancesUsed = Some [\<lparr>substance_type = ''Drug'', name = Some ''Peanut Extract''\<rparr>],
      distance = None, matchScore = None\<rparr>"

text \<open>Three trials: the second one is at distance 0, the first and third tie.\<close>

definition exampleTrials :: "Trial list" where
  "exampleTrials =
     [exampleTrial,
      exampleTrial\<lparr>trial_id := ''NCT002'', distance := Some 0\<rparr>,
      exampleTrial\<lparr>trial_id := ''NCT003''\<rparr>]"

definition exampleRanked :: "Trial list" where
  "exampleRanked =
     [exampleTrial\<lparr>trial_id := ''NCT002'', distance := Some 0, matchScore := Some (Num 1)\<rparr>,
      exampleTrial\<lparr>matchScore := Some (Num (4 / 5))\<rparr>,
      exampleTrial\<lparr>trial_id := ''NCT003'', matchScore := Some (Num (4 / 5))\<rparr>]"

definition exampleState :: TrialMatchingState where
  "exampleState =
     \<lparr>trials = [exampleTrial], currentIndex = 0, loading = False, error = None,
      matchedTrials = [], rejectedTrials = [], isMounted = True, isFetching = False,
      searchedProfile = None\<rparr>"

section \<open>Allergy filter: properties\<close>

text \<open>
  C6. For every list of trials \<open>T\<close>, \<open>filterTrialsByAllergies(T, [])\<close> returns \<open>T\<close>
  unchanged.
\<close>

theorem filterTrialsByAllergies_no_allergies:
  "filterTrialsByAllergies trialList [] = trialList"
  by (simp add: filterTrialsByAllergies_def)

lemma lower_peanut_extract: "toLowerCase ''Peanut Extract'' = ''peanut extract''"
  by code_simp

lemma normalize_peanut: "trim (toLowerCase ''peanut'') = ''peanut''"
  by code_simp

lemma normalize_peanuts: "trim (toLowerCase ''peanuts'') = ''peanuts''"
  by code_simp

lemma peanut_in_extract: "includes_str ''peanut extract'' ''peanut''"
  by code_simp

lemma peanuts_not_in_extract: "\<not> includes_str ''peanut extract'' ''peanuts''"
  by code_simp

text \<open>
  C7, as amended. A trial whose only disclosed substance name is \<open>Peanut Extract\<close> is
  excluded by the filter when the allergy list contains \<open>peanut\<close>. When the allergy list
  is only \<open>peanuts\<close>, the trial is kept exactly when its eligibility text, if it has one,
  contains neither \<open>allergy to peanuts\<close> nor \<open>allergic to peanuts\<close>: the substance name
  does not match (\<open>peanuts\<close> is no substring of \<open>peanut extract\<close>), but the filter's
  second rule still reads the eligibility text.
\<close>

theorem peanut_extract_filter:
  assumes "substancesUsed trial = Some [substance]"
    and "name substance = Some ''Peanut Extract''"
  shows
    "(''peanut'' \<in> set allergyList \<longrightarrow> filterTrialsByAllergies [trial] allergyList = []) \<and>
     (filterTrialsByAllergies [trial] [''peanuts''] = [trial] \<longleftrightarrow>
        (case eligibilityCriteria trial of
           None \<Rightarrow> True
         | Some criteria \<Rightarrow>
             \<not> includes_str (toLowerCase criteria) ''allergy to peanuts'' \<and>
             \<not> includes_str (toLowerCase criteria) ''allergic to peanuts''))"
proof -
  have hit: "substanceHasAllergen normalizedAllergies substance"
    if "''peanut'' \<in> set normalizedAllergies" for normalizedAllergies
    using that assms(2) peanut_in_extract
    by (auto simp add: substanceHasAllergen_def lower_peanut_extract list_ex_iff
        simp del: includes_str.simps)
  have first: "filterTrialsByAllergies [trial] allergyList = []"
    if "''peanut'' \<in> set allergyList"
  proof -
    have "''peanut'' \<in> set (map (\<lambda>a. trim (toLowerCase a)) allergyList)"
      using that normalize_peanut by force
    from hit [OF this] that assms(1) show ?thesis
      by (auto simp add: filterTrialsByAllergies_def keepTrial_def Let_def)
  qed
  have miss: "\<not> substanceHasAllergen [''peanuts''] substance"
    using assms(2) peanuts_not_in_extract
    by (simp add: substanceHasAllergen_def lower_peanut_extract del: includes_str.simps)
  have empty: "\<not> includes_str (toLowerCase []) ''allergy to peanuts''"
    "\<not> includes_str (toLowerCase []) ''allergic to peanuts''"
    by (simp_all add: toLowerCase_def)
  have second: "filterTrialsByAllergies [trial] [''peanuts''] = [trial] \<longleftrightarrow>
        (case eligibilityCriteria trial of
           None \<Rightarrow> True
         | Some criteria \<Rightarrow>
             \<not> includes_str (toLowerCase criteria) ''allergy to peanuts'' \<and>
             \<not> includes_str (toLowerCase criteria) ''allergic to peanuts'')"
    using miss assms(1) empty
    by (auto simp add: filterTrialsByAllergies_def keepTrial_def Let_def normalize_peanuts
        criteriaMentionAllergen_def simp del: includes_str.simps split: option.splits)
  from first second show ?thesis by blast
qed

text \<open>
  C7, witness: the example trial discloses the one substance \<open>Peanut Extract\<close> and has no
  eligibility text; it is excluded for \<open>peanut\<close> and kept for \<open>peanuts\<close>.
\<close>

theorem peanut_extract_filter_witness:
  "filterTrialsByAllergies [exampleTrial] [''latex'', ''peanut''] = [] \<and>
   filterTrialsByAllergies [exampleTrial] [''peanuts''] = [exampleTrial]"
proof -
  have s: "substancesUsed exampleTrial =
      Some [\<lparr>substance_type = ''Drug'', name = Some ''Peanut Extract''\<rparr>]"
    by (simp add: exampleTrial_def)
  have n: "name \<lparr>substance_type = ''Drug'', name = Some ''Peanut Extract''\<rparr> =
      Some ''Peanut Extract''"
    by simp
  have a: "''peanut'' \<in> set [''latex'', ''peanut'']" by simp
  have c: "eligibilityCriteria exampleTrial = None" by (simp add: exampleTrial_def)
  from peanut_extract_filter [OF s n, of "[''latex'', ''peanut'']"] a c
  show ?thesis by simp
qed

text \<open>
  C7, counterexample to the claim as stated: a trial whose only disclosed substance name
  is \<open>Peanut Extract\<close>, with the eligibility text \<open>No known allergy to peanuts\<close>, is
  excluded when the allergy list contains only \<open>peanuts\<close>.
\<close>

theorem peanut_extract_filter_counterexample:
  "substancesUsed (exampleTrial\<lparr>eligibilityCriteria := Some ''No known allergy to peanuts''\<rparr>) =
     Some [\<lparr>substance_type = ''Drug'', name = Some ''Peanut Extract''\<rparr>] \<and>
   filterTrialsByAllergies
     [exampleTrial\<lparr>eligibilityCriteria := Some ''No known allergy to peanuts''\<rparr>]
     [''peanuts''] = []"
  by code_simp


section \<open>Match score: properties\<close>

lemmas score_defs =
  calculateMatchScore_def scoreParts_def conditionPoints_def genderPoints_def agePoints_def

text \<open>
  C1, the code at a failing input. The doc comment of \<open>calculateMatchScore\<close> promises a
  score from 0.0 to 1.0. For a profile whose maximum travel distance is 0 and a trial at
  distance 0 the location block divides 0 by 0, and the function returns \<open>NaN\<close>, which
  is not a number in the interval. Two more inputs leave the interval on either side: a
  distance of -50 against a maximum of 50 gives 6/5, and a compensation amount of -100
  against a preferred compensation of 10 gives -10/11.
\<close>

theorem matchScore_outside_unit_interval:
  "calculateMatchScore (exampleProfile\<lparr>maxTravelDistance := 0\<rparr>)
     (exampleTrial\<lparr>distance := Some 0\<rparr>) = Inr NaN \<and>
   calculateMatchScore exampleProfile (exampleTrial\<lparr>distance := Some (- 50)\<rparr>) =
     Inr (Num (6 / 5)) \<and>
   calculateMatchScore (exampleProfile\<lparr>preferredCompensation := Some 10\<rparr>)
     (exampleTrial\<lparr>conditions := None, trial_gender := None,
        age_range := Some \<lparr>age_min = Some ''40'', age_max = None\<rparr>,
        compensation := Some \<lparr>has_compensation = True, amount = Some (- 100)\<rparr>\<rparr>) =
     Inr (Num (- (10 / 11)))"
  by code_simp

text \<open>
  C3, the code at a failing input. A trial record without the \<open>age_range\<close> object makes
  \<open>calculateMatchScore\<close> throw a \<open>TypeError\<close> instead of scoring the trial with the
  defaults 0 and 999, and the throw propagates through \<open>rankTrialsByMatchScore\<close>.
\<close>

theorem matchScore_throws_without_age_range:
  "calculateMatchScore exampleProfile (exampleTrial\<lparr>age_range := None\<rparr>) = Inl TypeError \<and>
   rankTrialsByMatchScore [exampleTrial, exampleTrial\<lparr>age_range := None\<rparr>] exampleProfile =
     Inl TypeError"
  by code_simp

text \<open>
  What does hold for C3: a trial that has the \<open>age_range\<close> object is always scored, and
  a bound that is missing, unparsable or zero is replaced by its default.
\<close>

lemma calculateMatchScore_returns:
  "age_range trial = Some ageRange \<Longrightarrow> \<exists>s. calculateMatchScore profile trial = Inr s"
  by (simp add: calculateMatchScore_def scoreParts_def Let_def)

lemma parseIntOr_default:
  "parseIntOr None dflt = dflt"
  "parseInt str = None \<Longrightarrow> parseIntOr (Some str) dflt = dflt"
  by (simp_all add: parseIntOr_def)

lemma ageMatch_defaults:
  assumes "age_min ageRange = None \<or> (\<exists>str. age_min ageRange = Some str \<and> parseInt str = None)"
    and "age_max ageRange = None \<or> (\<exists>str. age_max ageRange = Some str \<and> parseInt str = None)"
  shows "ageMatch profile ageRange \<longleftrightarrow> 0 \<le> age profile \<and> age profile \<le> 999"
  using assms by (auto simp add: ageMatch_def parseIntOr_def)

text \<open>
  C4, as amended. A trial that matches the profile on condition, gender and age and
  carries no distance, scored against a profile with no preferred compensation, receives
  exactly 80/100 = 0.8: the three weights 50 + 15 + 15 are earned, and the denominator
  is 50 + 15 + 15 + 20 = 100, since the distance weight is always counted.
\<close>

theorem matchScore_eligible_without_distance:
  assumes "conditionMatch profile trial" and "genderMatch profile trial"
    and "age_range trial = Some ageRange" and "ageMatch profile ageRange"
    and "distance trial = None" and "preferredCompensation profile = None"
  shows "calculateMatchScore profile trial = Inr (Num (80 / 100))"
  using assms
  by (simp add: score_defs proximityPoints_def compensationPoints_def compensationApplies_def)

text \<open>
  C4, witness: the example trial matches the example profile on condition, gender and
  age, has neither distance nor compensation, and scores 0.8.
\<close>

theorem matchScore_eligible_without_distance_witness:
  "conditionMatch exampleProfile exampleTrial \<and> genderMatch exampleProfile exampleTrial \<and>
   ageMatch exampleProfile \<lparr>age_min = Some ''18 Years'', age_max = Some ''N/A''\<rparr> \<and>
   calculateMatchScore exampleProfile exampleTrial = Inr (Num (80 / 100))"
proof -
  have c: "conditionMatch exampleProfile exampleTrial" by code_simp
  have g: "genderMatch exampleProfile exampleTrial" by code_simp
  have r: "age_range exampleTrial =
      Some \<lparr>age_min = Some ''18 Years'', age_max = Some ''N/A''\<rparr>"
    by (simp add: exampleTrial_def)
  have a: "ageMatch exampleProfile \<lparr>age_min = Some ''18 Years'', age_max = Some ''N/A''\<rparr>"
    by code_simp
  have d: "distance exampleTrial = None" by (simp add: exampleTrial_def)
  have p: "preferredCompensation exampleProfile = None" by (simp add: exampleProfile_def)
  from matchScore_eligible_without_distance [OF c g r a d p] c g a show ?thesis by simp
qed

text \<open>
  C4, counterexample to the claim as stated: the example trial matches on condition,
  gender and age, has no distance and no compensation, the profile has no preferred
  compensation, and the score is not 50/80.
\<close>

theorem matchScore_eligible_without_distance_counterexample:
  "conditionMatch exampleProfile exampleTrial \<and> genderMatch exampleProfile exampleTrial \<and>
   age_range exampleTrial = Some \<lparr>age_min = Some ''18 Years'', age_max = Some ''N/A''\<rparr> \<and>
   ageMatch exampleProfile \<lparr>age_min = Some ''18 Years'', age_max = Some ''N/A''\<rparr> \<and>
   distance exampleTrial = None \<and> compensation exampleTrial = None \<and>
   preferredCompensation exampleProfile = None \<and>
   calculateMatchScore exampleProfile exampleTrial \<noteq> Inr (Num (50 / 80))"
  by code_simp

text \<open>
  C5. With \<open>maxTravelDistance = 50\<close>, a trial at distance 0 earns 20 proximity points, a
  trial at distance 50 earns 5, and a trial at distance 60 earns none. Whatever the
  distance, the proximity points are one summand of \<open>score\<close> and the 20 of the proximity
  weight is a summand of \<open>maxScore\<close>.
\<close>

theorem proximity_points_max_50:
  assumes "maxTravelDistance profile = 50" and "age_range trial = Some ageRange"
  shows
    "(distance trial = Some 0 \<longrightarrow> proximityPoints profile trial = Num 20) \<and>
     (distance trial = Some 50 \<longrightarrow> proximityPoints profile trial = Num 5) \<and>
     (distance trial = Some 60 \<longrightarrow> proximityPoints profile trial = Num 0) \<and>
     scoreParts profile trial =
       Inr (js_add
              (js_add
                 (js_add
                    (js_add (js_add (Num 0) (conditionPoints profile trial))
                       (genderPoints profile trial))
                    (agePoints profile ageRange))
                 (proximityPoints profile trial))
              (compensationPoints profile trial),
            50 + 15 + 15 + 20 + (if compensationApplies profile then 10 else 0))"
  using assms
  by (simp add: proximityPoints_def scoreParts_def js_sub_def)

text \<open>
  C5, witness: the example profile has \<open>maxTravelDistance = 50\<close>; the example trial put
  at the distances 0, 50 and 60 earns 20, 5 and 0 proximity points, and its totals are
  100, 85 and 80 out of 100.
\<close>

theorem proximity_points_max_50_witness:
  "proximityPoints exampleProfile (exampleTrial\<lparr>distance := Some 0\<rparr>) = Num 20 \<and>
   proximityPoints exampleProfile (exampleTrial\<lparr>distance := Some 50\<rparr>) = Num 5 \<and>
   proximityPoints exampleProfile (exampleTrial\<lparr>distance := Some 60\<rparr>) = Num 0 \<and>
   scoreParts exampleProfile (exampleTrial\<lparr>distance := Some 0\<rparr>) = Inr (Num 100, 100) \<and>
   scoreParts exampleProfile (exampleTrial\<lparr>distance := Some 50\<rparr>) = Inr (Num 85, 100) \<and>
   scoreParts exampleProfile (exampleTrial\<lparr>distance := Some 60\<rparr>) = Inr (Num 80, 100)"
proof -
  let ?r = "\<lparr>age_min = Some ''18 Years'', age_max = Some ''N/A''\<rparr>"
  have m: "maxTravelDistance exampleProfile = 50" by (simp add: exampleProfile_def)
  have r: "age_range (exampleTrial\<lparr>distance := Some d\<rparr>) = Some ?r" for d
    by (simp add: exampleTrial_def)
  have "conditionMatch exampleProfile exampleTrial" by code_simp
  then have c: "conditionPoints exampleProfile (exampleTrial\<lparr>distance := Some d\<rparr>) = Num 50"
    for d
    by (simp add: conditionPoints_def conditionMatch_def)
  have "genderMatch exampleProfile exampleTrial" by code_simp
  then have g: "genderPoints exampleProfile (exampleTrial\<lparr>distance := Some d\<rparr>) = Num 15"
    for d
    by (simp add: genderPoints_def genderMatch_def)
  have a: "agePoints exampleProfile ?r = Num 15" by code_simp
  have k: "compensationPoints exampleProfile (exampleTrial\<lparr>distance := Some d\<rparr>) = Num 0" for d
    by (simp add: compensationPoints_def exampleProfile_def)
  have n: "\<not> compensationApplies exampleProfile" by code_simp
  have d: "distance (exampleTrial\<lparr>distance := Some d\<rparr>) = Some d" for d by simp
  from proximity_points_max_50 [OF m r, of 0] proximity_points_max_50 [OF m r, of 50]
    proximity_points_max_50 [OF m r, of 60] c g a k n d
  show ?thesis by simp
qed

text \<open>
  C10, as amended. Gender points are awarded whenever the trial's gender field is present
  and not empty and the profile's lower-cased gender is a substring of the trial's
  lower-cased gender. In particular, for every trial whose gender field is \<open>Female\<close>, a
  profile with gender \<open>male\<close> earns the full 15 points.
\<close>

theorem genderPoints_substring:
  "(trial_gender trial = Some g \<and> g \<noteq> [] \<and>
      includes_str (toLowerCase g) (toLowerCase (gender profile)) \<longrightarrow>
      genderPoints profile trial = Num 15) \<and>
   (trial_gender trial' = Some ''Female'' \<and> gender profile' = ''male'' \<longrightarrow>
      genderPoints profile' trial' = Num 15)"
proof -
  have sub: "includes_str (toLowerCase ''Female'') (toLowerCase ''male'')"
    by code_simp
  show ?thesis
    using sub by (auto simp add: genderPoints_def genderMatch_def Let_def)
qed

text \<open>
  C10, witness: the example trial is for \<open>Female\<close>; the example profile (\<open>male\<close>) and a
  profile with gender \<open>Fem\<close> both earn the 15 points.
\<close>

theorem genderPoints_substring_witness:
  "genderPoints exampleProfile exampleTrial = Num 15 \<and>
   genderPoints (exampleProfile\<lparr>gender := ''Fem''\<rparr>) exampleTrial = Num 15"
proof -
  have g: "trial_gender exampleTrial = Some ''Female''" by (simp add: exampleTrial_def)
  have m: "gender exampleProfile = ''male''" by (simp add: exampleProfile_def)
  have s: "includes_str (toLowerCase ''Female'')
      (toLowerCase (gender (exampleProfile\<lparr>gender := ''Fem''\<rparr>)))"
    by code_simp
  have n: "''Female'' \<noteq> []" by simp
  from genderPoints_substring [where trial = exampleTrial and g = "''Female''"
      and profile = "exampleProfile\<lparr>gender := ''Fem''\<rparr>" and trial' = exampleTrial
      and profile' = exampleProfile] g m s n
  show ?thesis by blast
qed

text \<open>
  C10, counterexample to the claim as stated: with an empty gender in both the profile
  and the trial, the profile's lower-cased gender is a substring of the trial's, and no
  gender points are awarded, because the empty trial gender fails the test
  \<open>if (trial.gender)\<close>.
\<close>

theorem genderPoints_substring_counterexample:
  "trial_gender (exampleTrial\<lparr>trial_gender := Some []\<rparr>) = Some [] \<and>
   includes_str (toLowerCase []) (toLowerCase (gender (exampleProfile\<lparr>gender := []\<rparr>))) \<and>
   genderPoints (exampleProfile\<lparr>gender := []\<rparr>) (exampleTrial\<lparr>trial_gender := Some []\<rparr>) =
     Num 0"
  by code_simp


section \<open>Search orchestrator: properties\<close>

text \<open>
  C2, as amended. When the search call fails, the orchestrator, if still mounted, sets the
  error message \<open>Failed to load clinical trials. Please try again later.\<close> and empties
  the trial list; the cursor, the two buckets and the stored profile key are unchanged,
  and the in-flight flag and \<open>loading\<close> are cleared. After an unmount only the two flags
  are cleared.
\<close>

theorem loadTrials_failure_clears_trials:
  "loadTrials_finish userProfile Rejected s =
     (if isMounted s then
        s\<lparr>error := Some ''Failed to load clinical trials. Please try again later.'',
          trials := [], isFetching := False, loading := False\<rparr>
      else s\<lparr>isFetching := False, loading := False\<rparr>)"
  by (simp add: loadTrials_finish_def loadTrials_catch_def)

text \<open>C2, witness: the failure in the mounted example state, which holds one trial.\<close>

theorem loadTrials_failure_clears_trials_witness:
  "isMounted exampleState \<and>
   loadTrials_finish exampleProfile Rejected exampleState =
     exampleState\<lparr>error := Some ''Failed to load clinical trials. Please try again later.'',
       trials := [], isFetching := False, loading := False\<rparr>"
proof -
  have m: "isMounted exampleState" by (simp add: exampleState_def)
  from loadTrials_failure_clears_trials [of exampleProfile exampleState] m
  show ?thesis by simp
qed

text \<open>
  C2, counterexample to the claim as stated: the example state holds a ranked list of one
  trial, and after the failed call the list is empty.
\<close>

theorem loadTrials_failure_clears_trials_counterexample:
  "isMounted exampleState \<and> trials exampleState = [exampleTrial] \<and>
   trials (loadTrials_finish exampleProfile Rejected exampleState) = []"
  by (simp add: loadTrials_finish_def loadTrials_catch_def exampleState_def)

text \<open>
  C9. A search trigger is skipped, with no state change and no network call, while a
  fetch is in flight or when the profile key equals the stored key of the last
  successful search. So when a trigger has issued a call and a second trigger with the
  same key arrives before the call settles, the two triggers make exactly one call.
\<close>

theorem loadTrials_skips_duplicate_search:
  "((isFetching s \<or> searchedProfile s = Some (profileKey userProfile)) \<longrightarrow>
      loadTrials_start userProfile s = (s, None)) \<and>
   (snd (loadTrials_start userProfile s) = Some call \<and>
    profileKey userProfile' = profileKey userProfile \<longrightarrow>
      triggers [userProfile, userProfile'] s = [call])"
proof -
  have skip: "loadTrials_start userProfile s = (s, None)"
    if "isFetching s \<or> searchedProfile s = Some (profileKey userProfile)"
    using that by (auto simp add: loadTrials_start_def Let_def)
  have one: "triggers [userProfile, userProfile'] s = [call]"
    if issued: "snd (loadTrials_start userProfile s) = Some call"
  proof -
    obtain s' where s': "loadTrials_start userProfile s = (s', Some call)"
      using issued by (cases "loadTrials_start userProfile s") auto
    then have "isFetching s'"
      by (auto simp add: loadTrials_start_def Let_def split: if_splits list.splits)
    then have "loadTrials_start userProfile' s' = (s', None)"
      by (simp add: loadTrials_start_def)
    with s' show ?thesis by simp
  qed
  from skip one show ?thesis by blast
qed

text \<open>
  C9, witness: from the example state the example profile issues one call; a trigger
  during the fetch, or with the stored key, is skipped; two triggers in a row make one
  call.
\<close>

theorem loadTrials_skips_duplicate_search_witness:
  "loadTrials_start exampleProfile exampleState =
     (exampleState\<lparr>isFetching := True, loading := True, error := None\<rparr>,
      Some (SearchCall ''Asthma'' ''Boston'' 50 30)) \<and>
   loadTrials_start exampleProfile (exampleState\<lparr>isFetching := True\<rparr>) =
     (exampleState\<lparr>isFetching := True\<rparr>, None) \<and>
   loadTrials_start exampleProfile
       (exampleState\<lparr>searchedProfile := Some (profileKey exampleProfile)\<rparr>) =
     (exampleState\<lparr>searchedProfile := Some (profileKey exampleProfile)\<rparr>, None) \<and>
   triggers [exampleProfile, exampleProfile] exampleState =
     [SearchCall ''Asthma'' ''Boston'' 50 30]"
proof -
  have start: "loadTrials_start exampleProfile exampleState =
     (exampleState\<lparr>isFetching := True, loading := True, error := None\<rparr>,
      Some (SearchCall ''Asthma'' ''Boston'' 50 30))"
    by code_simp
  then have issued: "snd (loadTrials_start exampleProfile exampleState) =
      Some (SearchCall ''Asthma'' ''Boston'' 50 30)"
    by simp
  have f: "isFetching (exampleState\<lparr>isFetching := True\<rparr>)" by simp
  have k: "searchedProfile (exampleState\<lparr>searchedProfile := Some (profileKey exampleProfile)\<rparr>) =
      Some (profileKey exampleProfile)"
    by simp
  from loadTrials_skips_duplicate_search
      [where s = "exampleState\<lparr>isFetching := True\<rparr>" and userProfile = exampleProfile]
    loadTrials_skips_duplicate_search
      [where s = "exampleState\<lparr>searchedProfile := Some (profileKey exampleProfile)\<rparr>"
        and userProfile = exampleProfile]
    loadTrials_skips_duplicate_search
      [where s = exampleState and userProfile = exampleProfile
        and call = "SearchCall ''Asthma'' ''Boston'' 50 30" and userProfile' = exampleProfile]
    start issued f k
  show ?thesis by blast
qed


section \<open>Ranking: properties\<close>

subsection \<open>The order of the comparator\<close>

lemma scoreOrZero_not_NaN: "scoreOrZero t \<noteq> NaN"
proof (cases "matchScore t")
  case None
  then show ?thesis by (simp add: scoreOrZero_def)
next
  case (Some s)
  then show ?thesis by (cases s) (simp_all add: scoreOrZero_def)
qed

lemma js_gt0_sub_iff:
  assumes "a \<noteq> NaN" and "b \<noteq> NaN"
  shows "js_gt0 (js_sub b a) \<longleftrightarrow> \<not> js_ge a b"
  using assms by (cases a; cases b) (auto simp add: js_sub_def)

lemma compareByMatchScore_after:
  "js_gt0 (compareByMatchScore a b) \<longleftrightarrow> \<not> js_ge (scoreOrZero a) (scoreOrZero b)"
  unfolding compareByMatchScore_def
  by (rule js_gt0_sub_iff) (rule scoreOrZero_not_NaN)+

lemma js_ge_total: "a \<noteq> NaN \<Longrightarrow> b \<noteq> NaN \<Longrightarrow> js_ge a b \<or> js_ge b a"
  by (cases a; cases b) auto

lemma js_ge_trans: "js_ge a b \<Longrightarrow> js_ge b c \<Longrightarrow> js_ge a c"
  by (cases a; cases b; cases c) auto

lemma js_ge_refl: "a \<noteq> NaN \<Longrightarrow> js_ge a a"
  by (cases a) auto

subsection \<open>The insertion sort\<close>

lemma mset_sort_insert: "mset (sort_insert compareFn x ys) = add_mset x (mset ys)"
  by (induction ys) simp_all

lemma mset_js_sort: "mset (js_sort compareFn xs) = mset xs"
  by (induction xs) (simp_all add: js_sort_def mset_sort_insert)

lemma set_sort_insert: "set (sort_insert compareFn x ys) = insert x (set ys)"
  using mset_sort_insert [of compareFn x ys, THEN arg_cong, of set_mset] by simp

lemma sorted_sort_insert:
  assumes "sorted_wrt score_ge ys"
  shows "sorted_wrt score_ge (sort_insert compareByMatchScore x ys)"
  using assms
proof (induction ys)
  case Nil
  then show ?case by simp
next
  case (Cons y ys)
  show ?case
  proof (cases "js_gt0 (compareByMatchScore x y)")
    case True
    then have "\<not> score_ge x y" by (simp add: compareByMatchScore_after)
    then have yx: "score_ge y x"
      using js_ge_total [OF scoreOrZero_not_NaN scoreOrZero_not_NaN] by blast
    from Cons.prems have "sorted_wrt score_ge ys" and "\<forall>z \<in> set ys. score_ge y z"
      by simp_all
    with Cons.IH yx True show ?thesis by (simp add: set_sort_insert)
  next
    case False
    then have xy: "score_ge x y" by (simp add: compareByMatchScore_after)
    from Cons.prems have "\<forall>z \<in> set ys. score_ge y z" by simp
    with xy have "\<forall>z \<in> set ys. score_ge x z" using js_ge_trans by blast
    with xy Cons.prems False show ?thesis by simp
  qed
qed

lemma sorted_js_sort: "sorted_wrt score_ge (js_sort compareByMatchScore xs)"
  by (induction xs) (simp_all add: js_sort_def sorted_sort_insert)

lemma filter_sort_insert:
  "filter (\<lambda>t. scoreOrZero t = k) (sort_insert compareByMatchScore x ys) =
     (if scoreOrZero x = k then x # filter (\<lambda>t. scoreOrZero t = k) ys
      else filter (\<lambda>t. scoreOrZero t = k) ys)"
proof (induction ys)
  case Nil
  then show ?case by simp
next
  case (Cons y ys)
  show ?case
  proof (cases "js_gt0 (compareByMatchScore x y)")
    case True
    then have "\<not> score_ge x y" by (simp add: compareByMatchScore_after)
    then have "scoreOrZero x \<noteq> scoreOrZero y"
      using js_ge_refl [OF scoreOrZero_not_NaN, of y] by auto
    with True Cons.IH show ?thesis by auto
  next
    case False
    then show ?thesis by simp
  qed
qed

lemma filter_js_sort:
  "filter (\<lambda>t. scoreOrZero t = k) (js_sort compareByMatchScore xs) =
     filter (\<lambda>t. scoreOrZero t = k) xs"
  by (induction xs) (simp_all add: js_sort_def filter_sort_insert)

subsection \<open>Scoring every trial\<close>

lemma map_throwing_returns:
  assumes "\<forall>x \<in> set xs. \<exists>y. f x = Inr y"
  shows "\<exists>ys. map_throwing f xs = Inr ys \<and> list_all2 (\<lambda>x y. f x = Inr y) xs ys"
  using assms
proof (induction xs)
  case Nil
  then show ?case by simp
next
  case (Cons x xs)
  then obtain y ys where "f x = Inr y" and "map_throwing f xs = Inr ys"
    and "list_all2 (\<lambda>x y. f x = Inr y) xs ys"
    by auto
  then show ?case by simp
qed

lemma withMatchScore_returns:
  assumes "age_range trial \<noteq> None"
  shows "\<exists>s. withMatchScore profile trial = Inr s"
proof -
  from assms obtain ageRange where "age_range trial = Some ageRange" by auto
  from calculateMatchScore_returns [OF this, of profile] show ?thesis
    by (auto simp add: withMatchScore_def)
qed

lemma withMatchScore_score:
  assumes "withMatchScore profile trial = Inr s"
  shows "\<exists>v. matchScore s = Some v \<and> (v \<noteq> NaN \<longrightarrow> scoreOrZero s = v)"
proof -
  from assms obtain v where v: "calculateMatchScore profile trial = Inr v"
    and s: "s = trial\<lparr>matchScore := Some v\<rparr>"
    by (auto simp add: withMatchScore_def split: sum.splits)
  have "v \<noteq> NaN \<longrightarrow> js_or0 v = v" by (cases v) simp_all
  with s show ?thesis by (simp add: scoreOrZero_def)
qed

text \<open>
  C8. When every trial that passes the allergy filter carries its \<open>age_range\<close> object,
  \<open>rankTrialsByMatchScore\<close> returns a list \<open>ranked\<close> that is a rearrangement of the
  filtered trials with their scores attached, in descending order of the score the
  comparator reads (\<open>matchScore || 0\<close>, which is \<open>matchScore\<close> itself unless that is
  \<open>NaN\<close>), and the sort is stable: for every score \<open>k\<close>, the trials with score \<open>k\<close>
  stand in \<open>ranked\<close> in the order they had in the input.
\<close>

theorem rankTrialsByMatchScore_sorted_stable:
  assumes "\<forall>t \<in> set (filterTrialsByAllergies trialList (allergies profile)).
      age_range t \<noteq> None"
  shows "\<exists>scoredTrials ranked.
      list_all2 (\<lambda>t s. withMatchScore profile t = Inr s)
        (filterTrialsByAllergies trialList (allergies profile)) scoredTrials \<and>
      rankTrialsByMatchScore trialList profile = Inr ranked \<and>
      mset ranked = mset scoredTrials \<and>
      sorted_wrt (\<lambda>a b. js_ge (scoreOrZero a) (scoreOrZero b)) ranked \<and>
      (\<forall>k. filter (\<lambda>t. scoreOrZero t = k) ranked =
           filter (\<lambda>t. scoreOrZero t = k) scoredTrials) \<and>
      (\<forall>t \<in> set ranked. \<exists>v. matchScore t = Some v \<and> (v \<noteq> NaN \<longrightarrow> scoreOrZero t = v))"
proof -
  let ?filtered = "filterTrialsByAllergies trialList (allergies profile)"
  from assms have "\<forall>t \<in> set ?filtered. \<exists>s. withMatchScore profile t = Inr s"
    using withMatchScore_returns by blast
  from map_throwing_returns [OF this] obtain scoredTrials
    where scored: "map_throwing (withMatchScore profile) ?filtered = Inr scoredTrials"
      and rel: "list_all2 (\<lambda>t s. withMatchScore profile t = Inr s) ?filtered scoredTrials"
    by blast
  let ?ranked = "js_sort compareByMatchScore scoredTrials"
  have ranked: "rankTrialsByMatchScore trialList profile = Inr ?ranked"
    using scored by (simp add: rankTrialsByMatchScore_def)
  have scores: "\<exists>v. matchScore t = Some v \<and> (v \<noteq> NaN \<longrightarrow> scoreOrZero t = v)"
    if "t \<in> set ?ranked" for t
  proof -
    from that have "t \<in> set scoredTrials"
      using mset_js_sort [of compareByMatchScore scoredTrials] by (metis set_mset_mset)
    with rel obtain t0 where "withMatchScore profile t0 = Inr t"
      by (auto simp add: list_all2_conv_all_nth in_set_conv_nth)
    then show ?thesis by (rule withMatchScore_score)
  qed
  from rel ranked mset_js_sort [of compareByMatchScore scoredTrials]
    sorted_js_sort [of scoredTrials] filter_js_sort [of _ scoredTrials] scores
  show ?thesis by blast
qed

text \<open>
  C8, witness: three trials with the scores 0.8, 1 and 0.8. The trial with score 1 comes
  first, and the two trials with score 0.8 keep their input order.
\<close>

theorem rankTrialsByMatchScore_sorted_stable_witness:
  "rankTrialsByMatchScore exampleTrials exampleProfile = Inr exampleRanked \<and>
   sorted_wrt (\<lambda>a b. js_ge (scoreOrZero a) (scoreOrZero b)) exampleRanked \<and>
   filter (\<lambda>t. scoreOrZero t = Num (4 / 5)) exampleRanked =
     [exampleTrial\<lparr>matchScore := Some (Num (4 / 5))\<rparr>,
      exampleTrial\<lparr>trial_id := ''NCT003'', matchScore := Some (Num (4 / 5))\<rparr>]"
proof -
  have h: "\<forall>t \<in> set (filterTrialsByAllergies exampleTrials (allergies exampleProfile)).
      age_range t \<noteq> None"
    by (simp add: filterTrialsByAllergies_def exampleProfile_def exampleTrials_def
        exampleTrial_def)
  from rankTrialsByMatchScore_sorted_stable [OF h] obtain ranked
    where r: "rankTrialsByMatchScore exampleTrials exampleProfile = Inr ranked"
      and s: "sorted_wrt (\<lambda>a b. js_ge (scoreOrZero a) (scoreOrZero b)) ranked"
    by blast
  have e: "rankTrialsByMatchScore exampleTrials exampleProfile = Inr exampleRanked"
    by code_simp
  have f: "filter (\<lambda>t. scoreOrZero t = Num (4 / 5)) exampleRanked =
     [exampleTrial\<lparr>matchScore := Some (Num (4 / 5))\<rparr>,
      exampleTrial\<lparr>trial_id := ''NCT003'', matchScore := Some (Num (4 / 5))\<rparr>]"
    by (simp add: exampleRanked_def scoreOrZero_def)
  from r e have "ranked = exampleRanked" by simp
  with s e f show ?thesis by simp
qed


section \<open>Match score: the unit interval\<close>

lemma proximityPoints_bounds:
  assumes "0 < maxTravelDistance profile"
    and "\<forall>d. distance trial = Some d \<longrightarrow> 0 \<le> d"
  shows "\<exists>x. proximityPoints profile trial = Num x \<and> 0 \<le> x \<and> x \<le> 20"
proof (cases "distance trial")
  case None
  then show ?thesis by (simp add: proximityPoints_def)
next
  case (Some d)
  with assms(2) have d: "0 \<le> d" by simp
  let ?m = "maxTravelDistance profile"
  show ?thesis
  proof (cases "d \<le> ?m")
    case False
    with Some show ?thesis by (simp add: proximityPoints_def)
  next
    case True
    with d assms(1) have q: "0 \<le> d / ?m" "d / ?m \<le> 1" by simp_all
    have "proximityPoints profile trial = Num (max 5 (20 * (1 - d / ?m)))"
      using Some True assms(1) by (simp add: proximityPoints_def js_sub_def)
    moreover have "0 \<le> max 5 (20 * (1 - d / ?m))" by simp
    moreover have "max 5 (20 * (1 - d / ?m)) \<le> 20" using q by simp
    ultimately show ?thesis by blast
  qed
qed

lemma compensationPoints_bounds:
  assumes "\<forall>c a. compensation trial = Some c \<and> amount c = Some a \<longrightarrow> 0 \<le> a"
  shows "\<exists>x. compensationPoints profile trial = Num x \<and> 0 \<le> x \<and>
      x \<le> (if compensationApplies profile then 10 else 0)"
proof -
  have partial: "0 \<le> min 9 (10 * (a / pc)) \<and> min 9 (10 * (a / pc)) \<le> 10"
    if "0 \<le> a" and "0 < pc" for a pc :: rat
    using that by simp
  show ?thesis
    using assms partial
    by (auto simp add: compensationPoints_def compensationApplies_def Let_def
        split: option.splits)
qed

text \<open>
  The score stays in the unit interval on the inputs the doc comment has in mind: for a
  trial with its \<open>age_range\<close> object, a positive maximum travel distance, a distance
  that is not negative and a compensation amount that is not negative, the function
  returns a finite number between 0 and 1.
\<close>

theorem calculateMatchScore_in_unit_interval:
  assumes "age_range trial = Some ageRange"
    and "0 < maxTravelDistance profile"
    and "\<forall>d. distance trial = Some d \<longrightarrow> 0 \<le> d"
    and "\<forall>c a. compensation trial = Some c \<and> amount c = Some a \<longrightarrow> 0 \<le> a"
  shows "\<exists>r. calculateMatchScore profile trial = Inr (Num r) \<and> 0 \<le> r \<and> r \<le> 1"
proof -
  from proximityPoints_bounds [OF assms(2,3)] obtain x
    where x: "proximityPoints profile trial = Num x" "0 \<le> x" "x \<le> 20"
    by blast
  from compensationPoints_bounds [OF assms(4)] obtain y
    where y: "compensationPoints profile trial = Num y" "0 \<le> y"
      "y \<le> (if compensationApplies profile then 10 else 0)"
    by blast
  have "\<exists>c. conditionPoints profile trial = Num c \<and> 0 \<le> c \<and> c \<le> 50"
    by (simp add: conditionPoints_def)
  then obtain c where c: "conditionPoints profile trial = Num c" "0 \<le> c" "c \<le> 50"
    by blast
  have "\<exists>g. genderPoints profile trial = Num g \<and> 0 \<le> g \<and> g \<le> 15"
    by (simp add: genderPoints_def)
  then obtain g where g: "genderPoints profile trial = Num g" "0 \<le> g" "g \<le> 15"
    by blast
  have "\<exists>a. agePoints profile ageRange = Num a \<and> 0 \<le> a \<and> a \<le> 15"
    by (simp add: agePoints_def)
  then obtain a where a: "agePoints profile ageRange = Num a" "0 \<le> a" "a \<le> 15"
    by blast
  let ?score = "c + g + a + x + y"
  show ?thesis
  proof (cases "compensationApplies profile")
    case True
    with y have "y \<le> 10" by simp
    with x y c g a have "0 \<le> ?score / 110" and "?score / 110 \<le> 1" by simp_all
    moreover have "calculateMatchScore profile trial = Inr (Num (?score / 110))"
      using assms(1) x y c g a True by (simp add: calculateMatchScore_def scoreParts_def)
    ultimately show ?thesis by blast
  next
    case False
    with y have "y = 0" by simp
    with x c g a have "0 \<le> ?score / 100" and "?score / 100 \<le> 1" by simp_all
    moreover have "calculateMatchScore profile trial = Inr (Num (?score / 100))"
      using assms(1) x y c g a False by (simp add: calculateMatchScore_def scoreParts_def)
    ultimately show ?thesis by blast
  qed
qed

text \<open>
  An instance: distance 25 of 50, compensation 50 of a preferred 100; the score is
  95/110.
\<close>

theorem calculateMatchScore_in_unit_interval_witness:
  "calculateMatchScore (exampleProfile\<lparr>preferredCompensation := Some 100\<rparr>)
     (exampleTrial\<lparr>distance := Some 25,
        compensation := Some \<lparr>has_compensation = True, amount = Some 50\<rparr>\<rparr>) =
     Inr (Num (19 / 22))"
proof -
  let ?p = "exampleProfile\<lparr>preferredCompensation := Some 100\<rparr>"
  let ?t = "exampleTrial\<lparr>distance := Some 25,
        compensation := Some \<lparr>has_compensation = True, amount = Some 50\<rparr>\<rparr>"
  have r: "age_range ?t = Some \<lparr>age_min = Some ''18 Years'', age_max = Some ''N/A''\<rparr>"
    by (simp add: exampleTrial_def)
  have m: "0 < maxTravelDistance ?p" by (simp add: exampleProfile_def)
  have d: "\<forall>d. distance ?t = Some d \<longrightarrow> 0 \<le> d" by simp
  have k: "\<forall>c a. compensation ?t = Some c \<and> amount c = Some a \<longrightarrow> 0 \<le> a" by auto
  from calculateMatchScore_in_unit_interval [OF r m d k]
  obtain v where "calculateMatchScore ?p ?t = Inr (Num v)" by blast
  moreover have "calculateMatchScore ?p ?t = Inr (Num (19 / 22))" by code_simp
  ultimately show ?thesis by simp
qed

section \<open>Match score: age defaults\<close>

text \<open>
  A trial that has its \<open>age_range\<close> object is always scored, and a bound that is missing
  or that \<open>parseInt\<close> cannot read is replaced by its default: 0 for the minimum, 999 for
  the maximum.
\<close>

theorem matchScore_age_defaults:
  assumes "age_range trial = Some ageRange"
  shows "(\<exists>s. calculateMatchScore profile trial = Inr s) \<and>
     (age_min ageRange = None \<or> (\<exists>str. age_min ageRange = Some str \<and> parseInt str = None) \<longrightarrow>
        parseIntOr (age_min ageRange) 0 = 0) \<and>
     (age_max ageRange = None \<or> (\<exists>str. age_max ageRange = Some str \<and> parseInt str = None) \<longrightarrow>
        parseIntOr (age_max ageRange) 999 = 999)"
  using calculateMatchScore_returns [OF assms, of profile]
  by (auto simp add: parseIntOr_default)

text \<open>
  An instance: the minimum \<open>adult\<close> cannot be read and the maximum is missing; the
  bounds are 0 and 999 and the trial is scored.
\<close>

theorem matchScore_age_defaults_witness:
  "parseInt ''adult'' = None \<and>
   parseIntOr (Some ''adult'') 0 = 0 \<and> parseIntOr None 999 = 999 \<and>
   calculateMatchScore exampleProfile
     (exampleTrial\<lparr>age_range := Some \<lparr>age_min = Some ''adult'', age_max = None\<rparr>\<rparr>) =
     Inr (Num (4 / 5))"
proof -
  let ?r = "\<lparr>age_min = Some ''adult'', age_max = None\<rparr>"
  let ?t = "exampleTrial\<lparr>age_range := Some ?r\<rparr>"
  have r: "age_range ?t = Some ?r" by simp
  have u: "parseInt ''adult'' = None" by code_simp
  have e: "calculateMatchScore exampleProfile ?t = Inr (Num (4 / 5))" by code_simp
  from matchScore_age_defaults [OF r, of exampleProfile] u e show ?thesis by simp
qed


end
